theory Spec2Isabelle
  imports Complex_Main
begin

section \<open>Python strings\<close>

text \<open>
  A Python \<open>str\<close> is modelled as a HOL \<open>string\<close> (a list of 8-bit characters, read as
  the code points 0 to 255). \<open>sep.join(parts)\<close> puts \<open>sep\<close> between consecutive
  parts, and nothing before the first or after the last one.
\<close>

fun join :: "string \<Rightarrow> string list \<Rightarrow> string" where
  "join sep [] = []"
| "join sep [x] = x"
| "join sep (x # y # ys) = x @ sep @ join sep (y # ys)"

text \<open>
  The Python values that the modelled methods return and store: \<open>None\<close>, a string, a
  list of strings.
\<close>

datatype pyval = PyNone | PyStr string | PyList "string list"

section \<open>Adapter (adapter.py)\<close>

text \<open>The exceptions the modelled code can raise.\<close>

datatype error = AttributeError | TypeError | ValueError

text \<open>
  What \<open>getattr\<close> can find under a name: a value that is not callable, or a bound method,
  which called with one text either raises or returns a value.
\<close>

datatype 'v attr = Data 'v | Method "string \<Rightarrow> error + 'v"

text \<open>An object as \<open>getattr\<close> sees it: the table of its attributes by name.\<close>

type_synonym 'v object = "string \<rightharpoonup> 'v attr"

text \<open>
  \<open>getattr(obj, name)\<close> raises \<open>AttributeError\<close> when the object has no attribute of
  that name. Calling what it returns with one argument raises \<open>TypeError\<close> when the
  attribute is not callable, and is the call of the method otherwise.
\<close>

definition getattr :: "'v object \<Rightarrow> string \<Rightarrow> error + 'v attr" where
  "getattr obj name = (case obj name of None \<Rightarrow> Inl AttributeError | Some a \<Rightarrow> Inr a)"

definition call :: "'v attr \<Rightarrow> string \<Rightarrow> error + 'v" where
  "call a text = (case a of Data v \<Rightarrow> Inl TypeError | Method f \<Rightarrow> f text)"

text \<open>
  The two model classes. An instance is the record of the attributes its constructor
  stores; \<open>OpenAIModel_object\<close> and \<open>HuggingFaceModel_object\<close> give the instance the
  way \<open>getattr\<close> sees it at the moment of the call: the attributes of the instance and
  the methods of the class, \<open>__init__\<close> included, bound to it. They take precedence over
  \<open>inherited\<close>: everything else \<open>getattr\<close> finds on the instance, that is the names
  every instance has from \<open>object\<close> and from the creation of its class (\<open>__class__\<close>,
  \<open>__dict__\<close>, \<open>__doc__\<close>, \<open>__str__\<close>, \<open>__getattribute__\<close> and so on). These
  belong to the Python runtime, not to this file, so their table is a parameter.

  A method is modelled by what it returns or raises when called with one text.
  \<open>OpenAIModel.__init__\<close> called this way on an instance assigns the attribute again and
  returns \<open>None\<close>; \<open>HuggingFaceModel.__init__\<close> lacks its second argument, which is a
  \<open>TypeError\<close>.
\<close>

record OpenAIModel =
  openai_model_name :: string

definition OpenAIModel_init :: "OpenAIModel \<Rightarrow> string \<Rightarrow> error + pyval" where
  "OpenAIModel_init self name = Inr PyNone"

definition OpenAIModel_query :: "OpenAIModel \<Rightarrow> string \<Rightarrow> error + pyval" where
  "OpenAIModel_query self prompt = Inr (PyStr (''OpenAI response to: '' @ prompt @ '')''))"

definition OpenAIModel_object :: "pyval object \<Rightarrow> OpenAIModel \<Rightarrow> pyval object" where
  "OpenAIModel_object inherited self =
     inherited ++
     [''__init__'' \<mapsto> Method (OpenAIModel_init self),
      ''query'' \<mapsto> Method (OpenAIModel_query self),
      ''openai_model_name'' \<mapsto> Data (PyStr (openai_model_name self))]"

record HuggingFaceModel =
  model_name :: string
  quantization_method :: string

definition HuggingFaceModel_init :: "HuggingFaceModel \<Rightarrow> string \<Rightarrow> error + pyval" where
  "HuggingFaceModel_init self name = Inl TypeError"

definition HuggingFaceModel_generate :: "HuggingFaceModel \<Rightarrow> string \<Rightarrow> error + pyval" where
  "HuggingFaceModel_generate self prompt =
     Inr (PyStr (''HuggingFace response to: '' @ prompt @ '')''))"

definition HuggingFaceModel_object :: "pyval object \<Rightarrow> HuggingFaceModel \<Rightarrow> pyval object" where
  "HuggingFaceModel_object inherited self =
     inherited ++
     [''__init__'' \<mapsto> Method (HuggingFaceModel_init self),
      ''generate'' \<mapsto> Method (HuggingFaceModel_generate self),
      ''model_name'' \<mapsto> Data (PyStr (model_name self)),
      ''quantization_method'' \<mapsto> Data (PyStr (quantization_method self))]"

text \<open>
  \<open>ModelAdapter\<close>: the constructor stores the target and the method name;
  \<open>query\<close> is \<open>getattr(self.model, self.query_method)(text)\<close>.
\<close>

record 'v ModelAdapter =
  model :: "'v object"
  query_method :: string

definition ModelAdapter_init :: "'v object \<Rightarrow> string \<Rightarrow> 'v ModelAdapter" where
  "ModelAdapter_init m qm = \<lparr>model = m, query_method = qm\<rparr>"

definition ModelAdapter_query :: "'v ModelAdapter \<Rightarrow> string \<Rightarrow> error + 'v" where
  "ModelAdapter_query self text =
     (case getattr (model self) (query_method self) of
        Inl e \<Rightarrow> Inl e
      | Inr a \<Rightarrow> call a text)"

text \<open>The two adapters the script builds.\<close>

definition openai_model :: "pyval object \<Rightarrow> pyval ModelAdapter" where
  "openai_model inherited =
     ModelAdapter_init (OpenAIModel_object inherited \<lparr>openai_model_name = ''gpt-4o''\<rparr>) ''query''"

definition huggingface_model :: "pyval object \<Rightarrow> pyval ModelAdapter" where
  "huggingface_model inherited =
     ModelAdapter_init
       (HuggingFaceModel_object inherited
          \<lparr>model_name = ''Mistral7b'', quantization_method = ''bitsandbytes''\<rparr>)
       ''generate''"

section \<open>Builder (builder.py)\<close>

text \<open>
  \<open>Query\<close> has the three attributes its constructor stores. The temperature is only
  ever stored and handed on, never computed with, so the Python number is modelled
  as a \<open>real\<close> (the literal \<open>1.0\<close> is \<open>1\<close>).
\<close>

record Query =
  prompt :: string
  temperature :: real
  max_tokens :: int

text \<open>
  An element of \<open>QueryBuilder.examples\<close>: the dictionary
  \<open>{"input": example_input, "output": example_output}\<close>, with exactly these two keys.
\<close>

record example =
  ex_input :: string
  ex_output :: string

record QueryBuilder =
  prompt :: string
  temperature :: real
  max_tokens :: int
  examples :: "example list"

text \<open>\<open>QueryBuilder.__init__\<close>.\<close>

definition QueryBuilder_init :: QueryBuilder where
  "QueryBuilder_init =
     \<lparr>QueryBuilder.prompt = '''', temperature = 1.0, max_tokens = 100, examples = []\<rparr>"

text \<open>
  The setters assign one attribute and return \<open>self\<close>: the model returns the updated
  builder, so that a chain of calls is a chain of applications.
\<close>

definition set_prompt :: "QueryBuilder \<Rightarrow> string \<Rightarrow> QueryBuilder" where
  "set_prompt self p = self\<lparr>QueryBuilder.prompt := p\<rparr>"

definition set_temperature :: "QueryBuilder \<Rightarrow> real \<Rightarrow> QueryBuilder" where
  "set_temperature self t = self\<lparr>QueryBuilder.temperature := t\<rparr>"

definition set_max_tokens :: "QueryBuilder \<Rightarrow> int \<Rightarrow> QueryBuilder" where
  "set_max_tokens self m = self\<lparr>QueryBuilder.max_tokens := m\<rparr>"

definition add_example :: "QueryBuilder \<Rightarrow> string \<Rightarrow> string \<Rightarrow> QueryBuilder" where
  "add_example self example_input example_output =
     self\<lparr>examples := examples self @ [\<lparr>ex_input = example_input, ex_output = example_output\<rparr>]\<rparr>"

text \<open>
  \<open>QueryBuilder.build\<close>. The method returns the new \<open>Query\<close>; the second component is
  the builder as the call leaves it (the body assigns to no attribute of \<open>self\<close>).
  \<open>if self.examples\<close> is Python's truth test of a list: true when it is not empty.
\<close>

definition build :: "QueryBuilder \<Rightarrow> Query \<times> QueryBuilder" where
  "build self =
     (let full_prompt =
        (if examples self \<noteq> [] then
           (let example_str =
              join ''\<newline>\<newline>''
                (map (\<lambda>ex. ''Input: '' @ ex_input ex @ ''\<newline>Output: '' @ ex_output ex)
                   (examples self))
            in example_str @ ''\<newline>\<newline>Input: '' @ QueryBuilder.prompt self @ ''\<newline>Output:'')
         else QueryBuilder.prompt self)
      in (\<lparr>Query.prompt = full_prompt,
           temperature = QueryBuilder.temperature self,
           max_tokens = QueryBuilder.max_tokens self\<rparr>, self))"

section \<open>Observer (observer.py)\<close>

text \<open>
  A listener is an instance of one of the three classes of the file. The number is the
  identity of the instance: the classes define no \<open>__eq__\<close>, so Python's \<open>==\<close> on
  listeners is identity, and two listeners are equal here when they are the same
  instance.
\<close>

datatype observer = Observer nat | Logger nat | UIUpdater nat

text \<open>
  What the listeners act on: the lines printed so far, and the history of the calls of
  \<open>update\<close> (which listener, with which payload), kept so that the order of the calls
  can be stated also for listeners that print nothing.
\<close>

record world =
  stdout :: "string list"
  calls :: "(observer \<times> string) list"

definition print :: "string \<Rightarrow> world \<Rightarrow> world" where
  "print line w = w\<lparr>stdout := stdout w @ [line]\<rparr>"

definition called :: "observer \<Rightarrow> string \<Rightarrow> world \<Rightarrow> world" where
  "called ob llm_output w = w\<lparr>calls := calls w @ [(ob, llm_output)]\<rparr>"

text \<open>
  \<open>update\<close> of the three classes: the base class does nothing (\<open>pass\<close>), the other two
  print one line.
\<close>

fun update :: "observer \<Rightarrow> string \<Rightarrow> world \<Rightarrow> world" where
  "update (Observer i) llm_output w = called (Observer i) llm_output w"
| "update (Logger i) llm_output w =
     print (''Logger: Saving LLM output to logs: '' @ llm_output) (called (Logger i) llm_output w)"
| "update (UIUpdater i) llm_output w =
     print (''UI: Displaying LLM output to the user: '' @ llm_output) (called (UIUpdater i) llm_output w)"

text \<open>
  Python's \<open>list.remove(x)\<close>: deletes the first element equal to \<open>x\<close>, and raises
  \<open>ValueError\<close>, leaving the list as it was, when there is none.
\<close>

fun list_remove :: "'a list \<Rightarrow> 'a \<Rightarrow> error + 'a list" where
  "list_remove [] x = Inl ValueError"
| "list_remove (y # ys) x =
     (if y = x then Inr ys
      else (case list_remove ys x of Inl e \<Rightarrow> Inl e | Inr zs \<Rightarrow> Inr (y # zs)))"

record LLMOutputNotifier =
  observers :: "observer list"

definition LLMOutputNotifier_init :: LLMOutputNotifier where
  "LLMOutputNotifier_init = \<lparr>observers = []\<rparr>"

definition add_observer :: "LLMOutputNotifier \<Rightarrow> observer \<Rightarrow> LLMOutputNotifier" where
  "add_observer self ob = self\<lparr>observers := observers self @ [ob]\<rparr>"

text \<open>
  \<open>remove_observer\<close> returns the exception raised, if any, and the notifier as the call
  leaves it.
\<close>

definition remove_observer :: "LLMOutputNotifier \<Rightarrow> observer \<Rightarrow> error option \<times> LLMOutputNotifier" where
  "remove_observer self ob =
     (case list_remove (observers self) ob of
        Inl e \<Rightarrow> (Some e, self)
      | Inr obs \<Rightarrow> (None, self\<lparr>observers := obs\<rparr>))"

text \<open>\<open>notify\<close>: the \<open>for\<close> loop over \<open>self.observers\<close>, first to last.\<close>

fun notify_loop :: "observer list \<Rightarrow> string \<Rightarrow> world \<Rightarrow> world" where
  "notify_loop [] llm_output w = w"
| "notify_loop (ob # obs) llm_output w = notify_loop obs llm_output (update ob llm_output w)"

definition notify :: "LLMOutputNotifier \<Rightarrow> string \<Rightarrow> world \<Rightarrow> world" where
  "notify self llm_output w = notify_loop (observers self) llm_output w"

section \<open>Strategy (strategy.py)\<close>

text \<open>
  \<open>sub in s\<close> on Python strings: \<open>sub\<close> occurs in \<open>s\<close> as a contiguous substring.
\<close>

fun startswith :: "string \<Rightarrow> string \<Rightarrow> bool" where
  "startswith s [] = True"
| "startswith [] (p # ps) = False"
| "startswith (c # cs) (p # ps) = (c = p \<and> startswith cs ps)"

fun str_contains :: "string \<Rightarrow> string \<Rightarrow> bool" where
  "str_contains [] sub = (sub = [])"
| "str_contains (c # cs) sub = (startswith (c # cs) sub \<or> str_contains cs sub)"

text \<open>
  \<open>repr\<close> of a Python string, which \<open>str\<close> of a list applies to its elements: single
  quotes, or double quotes when the text has a single quote and no double quote; the
  quote in use and the backslash are escaped, tab, newline and carriage return are
  written \<open>\t\<close>, \<open>\n\<close>, \<open>\r\<close>, and every other code point (below 256 here) that is
  not printable is written \<open>\xhh\<close>.
\<close>

definition hex_digit :: "nat \<Rightarrow> char" where
  "hex_digit n = char_of (if n < 10 then 48 + n else 87 + n)"

definition is_printable :: "char \<Rightarrow> bool" where
  "is_printable c =
     (let n = (of_char c :: nat)
      in (32 \<le> n \<and> n < 127) \<or> (161 \<le> n \<and> n \<noteq> 173))"

definition repr_char :: "char \<Rightarrow> char \<Rightarrow> string" where
  "repr_char quote c =
     (if c = quote \<or> c = CHR 0x5C then [CHR 0x5C, c]
      else if c = CHR 0x09 then [CHR 0x5C, CHR ''t'']
      else if c = CHR 0x0A then [CHR 0x5C, CHR ''n'']
      else if c = CHR 0x0D then [CHR 0x5C, CHR ''r'']
      else if is_printable c then [c]
      else [CHR 0x5C, CHR ''x'', hex_digit (of_char c div 16), hex_digit (of_char c mod 16)])"

definition py_repr :: "string \<Rightarrow> string" where
  "py_repr s =
     (let quote = (if CHR 0x27 \<in> set s \<and> CHR 0x22 \<notin> set s then CHR 0x22 else CHR 0x27)
      in [quote] @ concat (map (repr_char quote) s) @ [quote])"

text \<open>
  \<open>py_str\<close> is the text an f-string puts for a value: \<open>None\<close>, a string as it is, a
  list as the \<open>repr\<close> of its elements between brackets.
\<close>

fun py_str :: "pyval \<Rightarrow> string" where
  "py_str PyNone = ''None''"
| "py_str (PyStr s) = s"
| "py_str (PyList xs) = ''['' @ join '', '' (map py_repr xs) @ '']''"

text \<open>
  A strategy object, as the annotation \<open>strategy: RAGStrategy\<close> of the ChatBot has it:
  an instance of one of the three classes of the file, which have no attributes, or
  of any other subclass of \<open>RAGStrategy\<close>, given by what its own \<open>retrieve\<close> returns for
  a query. \<open>retrieve\<close> dispatches on the class.
\<close>

datatype RAGStrategy = RAGStrategy | NaiveRAG | AdvancedRAG | OtherRAG "string \<Rightarrow> pyval"

definition RAGStrategy_retrieve :: "string \<Rightarrow> pyval" where
  "RAGStrategy_retrieve query = PyNone"

definition NaiveRAG_retrieve :: "string \<Rightarrow> pyval" where
  "NaiveRAG_retrieve query = PyList [''Document 1: Basics of Python.'', ''Document 2: OOP in Python.'']"

definition AdvancedRAG_retrieve :: "string \<Rightarrow> pyval" where
  "AdvancedRAG_retrieve query =
     (let all_docs =
        [''Document 1: Basics of Python.'',
         ''Document 2: Advanced Python Design Patterns.'',
         ''Document 3: Strategy Pattern in Depth.'']
      in PyList [doc \<leftarrow> all_docs. str_contains doc ''Design Patterns''])"

fun retrieve :: "RAGStrategy \<Rightarrow> string \<Rightarrow> pyval" where
  "retrieve RAGStrategy query = RAGStrategy_retrieve query"
| "retrieve NaiveRAG query = NaiveRAG_retrieve query"
| "retrieve AdvancedRAG query = AdvancedRAG_retrieve query"
| "retrieve (OtherRAG f) query = f query"

record ChatBot =
  strategy :: RAGStrategy

definition ChatBot_init :: "RAGStrategy \<Rightarrow> ChatBot" where
  "ChatBot_init s = \<lparr>strategy = s\<rparr>"

definition set_strategy :: "ChatBot \<Rightarrow> RAGStrategy \<Rightarrow> ChatBot" where
  "set_strategy self s = self\<lparr>strategy := s\<rparr>"

text \<open>
  \<open>get_response\<close> returns the response and the ChatBot as the call leaves it (the body
  assigns to no attribute of \<open>self\<close>).
\<close>

definition get_response :: "ChatBot \<Rightarrow> string \<Rightarrow> string \<times> ChatBot" where
  "get_response self query =
     (let retrieved_docs = retrieve (strategy self) query
      in (''Generated response based on: '' @ py_str retrieved_docs, self))"

text \<open>
  A client of a ChatBot, as the script at the end of the file is one: a sequence of
  calls of \<open>set_strategy\<close> and \<open>get_response\<close>. \<open>run\<close> makes the calls in order and
  returns the responses, in order, and the ChatBot at the end.
\<close>

datatype request = SetStrategy RAGStrategy | GetResponse string

fun run :: "ChatBot \<Rightarrow> request list \<Rightarrow> string list \<times> ChatBot" where
  "run self [] = ([], self)"
| "run self (SetStrategy s # cs) = run (set_strategy self s) cs"
| "run self (GetResponse q # cs) =
     (case get_response self q of (r, self') \<Rightarrow>
        (case run self' cs of (rs, self'') \<Rightarrow> (r # rs, self'')))"

section \<open>Properties of the builder\<close>

lemma join_blank_line:
  "xs \<noteq> [] \<Longrightarrow> join sep xs @ sep @ rest = concat (map (\<lambda>x. x @ sep) xs) @ rest"
  by (induction sep xs rule: join.induct) simp_all

text \<open>
  C10. A freshly constructed builder has prompt \<open>""\<close>, temperature 1.0, 100 tokens and no
  examples, and building it at once gives the Query with exactly these three values.
\<close>

theorem fresh_builder_defaults:
  "QueryBuilder.prompt QueryBuilder_init = '''' \<and>
   QueryBuilder.temperature QueryBuilder_init = 1.0 \<and>
   QueryBuilder.max_tokens QueryBuilder_init = 100 \<and>
   examples QueryBuilder_init = [] \<and>
   fst (build QueryBuilder_init) = \<lparr>Query.prompt = '''', temperature = 1.0, max_tokens = 100\<rparr>"
  by (simp add: QueryBuilder_init_def build_def)

lemma join_snoc:
  "join sep (xs @ [y]) = concat (map (\<lambda>x. x @ sep) xs) @ y"
  by (induction sep xs rule: join.induct) simp_all

text \<open>
  C1. With at least one example, the prompt text of the built Query is: every example
  rendered as the line \<open>Input: <in>\<close> and the line \<open>Output: <out>\<close>, each followed by
  a blank line, in the order they were added, and then \<open>Input: <prompt>\<close> and a last
  line \<open>Output:\<close> with no text. Said with \<open>join\<close>: the blocks of the examples and the
  block of the prompt, joined by blank lines.
\<close>

theorem build_few_shot_prompt:
  assumes "examples b \<noteq> []"
  shows "Query.prompt (fst (build b)) =
           concat (map (\<lambda>ex. ''Input: '' @ ex_input ex @ ''\<newline>Output: '' @ ex_output ex
                                @ ''\<newline>\<newline>'') (examples b))
           @ ''Input: '' @ QueryBuilder.prompt b @ ''\<newline>Output:''
         \<and> Query.prompt (fst (build b)) =
           join ''\<newline>\<newline>''
             (map (\<lambda>ex. ''Input: '' @ ex_input ex @ ''\<newline>Output: '' @ ex_output ex) (examples b)
              @ [''Input: '' @ QueryBuilder.prompt b @ ''\<newline>Output:''])"
proof -
  let ?blocks = "map (\<lambda>ex. ''Input: '' @ ex_input ex @ ''\<newline>Output: '' @ ex_output ex) (examples b)"
  let ?last = "''Input: '' @ QueryBuilder.prompt b @ ''\<newline>Output:''"
  have blocks: "?blocks \<noteq> []"
    using assms by simp
  have built: "Query.prompt (fst (build b)) = join ''\<newline>\<newline>'' ?blocks @ ''\<newline>\<newline>'' @ ?last"
    using assms by (simp add: build_def)
  have flat: "join ''\<newline>\<newline>'' ?blocks @ ''\<newline>\<newline>'' @ ?last
                = concat (map (\<lambda>x. x @ ''\<newline>\<newline>'') ?blocks) @ ?last"
    using blocks by (rule join_blank_line)
  have first: "Query.prompt (fst (build b)) = concat (map (\<lambda>x. x @ ''\<newline>\<newline>'') ?blocks) @ ?last"
    using built flat by simp
  have second: "join ''\<newline>\<newline>'' (?blocks @ [?last])
                = concat (map (\<lambda>x. x @ ''\<newline>\<newline>'') ?blocks) @ ?last"
    by (rule join_snoc)
  show ?thesis
    using first second by (simp add: comp_def)
qed

theorem build_few_shot_prompt_witness:
  "examples (set_prompt (add_example (add_example QueryBuilder_init ''Q1'' ''A1'') ''Q2'' ''A2'') ''Q3'')
     = [\<lparr>ex_input = ''Q1'', ex_output = ''A1''\<rparr>, \<lparr>ex_input = ''Q2'', ex_output = ''A2''\<rparr>]
   \<and> QueryBuilder.prompt
        (set_prompt (add_example (add_example QueryBuilder_init ''Q1'' ''A1'') ''Q2'' ''A2'') ''Q3'')
     = ''Q3''
   \<and> Query.prompt (fst (build
        (set_prompt (add_example (add_example QueryBuilder_init ''Q1'' ''A1'') ''Q2'' ''A2'') ''Q3'')))
     = ''Input: Q1\<newline>Output: A1\<newline>\<newline>Input: Q2\<newline>Output: A2\<newline>\<newline>Input: Q3\<newline>Output:''"
proof -
  let ?b = "set_prompt (add_example (add_example QueryBuilder_init ''Q1'' ''A1'') ''Q2'' ''A2'') ''Q3''"
  have ex: "examples ?b = [\<lparr>ex_input = ''Q1'', ex_output = ''A1''\<rparr>, \<lparr>ex_input = ''Q2'', ex_output = ''A2''\<rparr>]"
    by (simp add: set_prompt_def add_example_def QueryBuilder_init_def)
  have pr: "QueryBuilder.prompt ?b = ''Q3''"
    by (simp add: set_prompt_def)
  have ne: "examples ?b \<noteq> []"
    using ex by simp
  show ?thesis
    using build_few_shot_prompt [OF ne] ex pr by simp
qed

text \<open>
  C8. With no examples, the prompt text of the built Query is the prompt last passed to
  \<open>set_prompt\<close>, with nothing added: also when other setters were called after it, and
  when an earlier \<open>set_prompt\<close> had set another text.
\<close>

theorem build_no_examples_verbatim:
  assumes "examples b = []"
  shows "Query.prompt (fst (build (set_prompt b p))) = p
         \<and> Query.prompt (fst (build (set_max_tokens (set_temperature (set_prompt b p) t) m))) = p
         \<and> Query.prompt (fst (build (set_prompt (set_prompt b p0) p))) = p"
  using assms
  by (simp add: build_def set_prompt_def set_temperature_def set_max_tokens_def)

theorem build_no_examples_verbatim_witness:
  "examples QueryBuilder_init = []
   \<and> Query.prompt (fst (build (set_prompt QueryBuilder_init ''What is the capital of France?'')))
       = ''What is the capital of France?''
   \<and> fst (build (set_max_tokens (set_prompt QueryBuilder_init ''What is the capital of France?'') 20))
       = \<lparr>Query.prompt = ''What is the capital of France?'', temperature = 1.0, max_tokens = 20\<rparr>"
proof -
  have e: "examples QueryBuilder_init = []"
    by (simp add: QueryBuilder_init_def)
  have q: "fst (build (set_max_tokens (set_prompt QueryBuilder_init ''What is the capital of France?'') 20))
       = \<lparr>Query.prompt = ''What is the capital of France?'', temperature = 1.0, max_tokens = 20\<rparr>"
    by (simp add: build_def set_prompt_def set_max_tokens_def QueryBuilder_init_def)
  show ?thesis
    using build_no_examples_verbatim [OF e, of "''What is the capital of France?''"] e q
    by simp
qed

text \<open>
  C9. \<open>build\<close> leaves the builder as it found it, so a second \<open>build\<close> right after the
  first returns an equal Query (prompt, temperature and token count). A setter or
  \<open>add_example\<close> called between the two is seen by the second: it builds what the
  builder with that one attribute changed builds. After \<open>set_prompt(p)\<close> the second
  Query has the prompt text made from \<open>p\<close> (\<open>p\<close> itself when there are no examples, the
  examples followed by \<open>Input: p\<close> and \<open>Output:\<close> otherwise) and the temperature and
  token count of the builder; after \<open>set_temperature\<close> or \<open>set_max_tokens\<close> it is the
  first Query with the new temperature or token count; after \<open>add_example\<close> its text
  has the new example after the old ones and before the prompt.
\<close>

theorem build_reads_current_state:
  "snd (build b) = b
   \<and> fst (build (snd (build b))) = fst (build b)
   \<and> fst (build (set_prompt (snd (build b)) p)) = fst (build (b\<lparr>QueryBuilder.prompt := p\<rparr>))
   \<and> fst (build (set_temperature (snd (build b)) t)) = (fst (build b))\<lparr>Query.temperature := t\<rparr>
   \<and> fst (build (set_max_tokens (snd (build b)) m)) = (fst (build b))\<lparr>Query.max_tokens := m\<rparr>
   \<and> fst (build (add_example (snd (build b)) i out))
       = fst (build (b\<lparr>examples := examples b @ [\<lparr>ex_input = i, ex_output = out\<rparr>]\<rparr>))
   \<and> Query.prompt (fst (build (add_example (snd (build b)) i out)))
       = concat (map (\<lambda>ex. ''Input: '' @ ex_input ex @ ''\<newline>Output: '' @ ex_output ex
                                @ ''\<newline>\<newline>'') (examples b))
         @ ''Input: '' @ i @ ''\<newline>Output: '' @ out @ ''\<newline>\<newline>''
         @ ''Input: '' @ QueryBuilder.prompt b @ ''\<newline>Output:''
   \<and> fst (build (set_prompt (snd (build b)) p))
       = \<lparr>Query.prompt =
            (if examples b = [] then p
             else concat (map (\<lambda>ex. ''Input: '' @ ex_input ex @ ''\<newline>Output: '' @ ex_output ex
                                        @ ''\<newline>\<newline>'') (examples b))
                  @ ''Input: '' @ p @ ''\<newline>Output:''),
          temperature = QueryBuilder.temperature b,
          max_tokens = QueryBuilder.max_tokens b\<rparr>
   \<and> Query.temperature (fst (build (set_temperature (snd (build b)) t))) = t
   \<and> Query.max_tokens (fst (build (set_max_tokens (snd (build b)) m))) = m
   \<and> fst (build (add_example (snd (build b)) i out))
       = \<lparr>Query.prompt =
            concat (map (\<lambda>ex. ''Input: '' @ ex_input ex @ ''\<newline>Output: '' @ ex_output ex
                                   @ ''\<newline>\<newline>'') (examples b))
            @ ''Input: '' @ i @ ''\<newline>Output: '' @ out @ ''\<newline>\<newline>''
            @ ''Input: '' @ QueryBuilder.prompt b @ ''\<newline>Output:'',
          temperature = QueryBuilder.temperature b,
          max_tokens = QueryBuilder.max_tokens b\<rparr>"
proof -
  have same: "snd (build b) = b"
    by (simp add: build_def Let_def)
  have rendered: "Query.prompt (fst (build (add_example b i out)))
       = concat (map (\<lambda>ex. ''Input: '' @ ex_input ex @ ''\<newline>Output: '' @ ex_output ex
                                @ ''\<newline>\<newline>'') (examples b))
         @ ''Input: '' @ i @ ''\<newline>Output: '' @ out @ ''\<newline>\<newline>''
         @ ''Input: '' @ QueryBuilder.prompt b @ ''\<newline>Output:''"
    by (simp add: build_def add_example_def join_snoc join_blank_line [of _ _ "[]", simplified] comp_def)
  have others: "Query.temperature (fst (build (add_example b i out))) = QueryBuilder.temperature b"
    "Query.max_tokens (fst (build (add_example b i out))) = QueryBuilder.max_tokens b"
    by (simp_all add: build_def add_example_def Let_def)
  have added: "fst (build (add_example b i out))
       = \<lparr>Query.prompt =
            concat (map (\<lambda>ex. ''Input: '' @ ex_input ex @ ''\<newline>Output: '' @ ex_output ex
                                   @ ''\<newline>\<newline>'') (examples b))
            @ ''Input: '' @ i @ ''\<newline>Output: '' @ out @ ''\<newline>\<newline>''
            @ ''Input: '' @ QueryBuilder.prompt b @ ''\<newline>Output:'',
          temperature = QueryBuilder.temperature b,
          max_tokens = QueryBuilder.max_tokens b\<rparr>"
    using rendered others by (cases "fst (build (add_example b i out))") simp
  have prompted: "fst (build (set_prompt b p))
       = \<lparr>Query.prompt =
            (if examples b = [] then p
             else concat (map (\<lambda>ex. ''Input: '' @ ex_input ex @ ''\<newline>Output: '' @ ex_output ex
                                        @ ''\<newline>\<newline>'') (examples b))
                  @ ''Input: '' @ p @ ''\<newline>Output:''),
          temperature = QueryBuilder.temperature b,
          max_tokens = QueryBuilder.max_tokens b\<rparr>"
  proof (cases "examples b = []")
    case True
    then show ?thesis
      by (simp add: build_def set_prompt_def)
  next
    case False
    then have ne: "examples (set_prompt b p) \<noteq> []"
      by (simp add: set_prompt_def)
    have "Query.prompt (fst (build (set_prompt b p)))
            = concat (map (\<lambda>ex. ''Input: '' @ ex_input ex @ ''\<newline>Output: '' @ ex_output ex
                                     @ ''\<newline>\<newline>'') (examples b))
              @ ''Input: '' @ p @ ''\<newline>Output:''"
      using False
      by (simp add: build_def set_prompt_def comp_def
          join_blank_line [of _ "''\<newline>\<newline>''", simplified])
    moreover have "Query.temperature (fst (build (set_prompt b p))) = QueryBuilder.temperature b"
      "Query.max_tokens (fst (build (set_prompt b p))) = QueryBuilder.max_tokens b"
      by (simp_all add: build_def set_prompt_def Let_def)
    ultimately show ?thesis
      using False by (cases "fst (build (set_prompt b p))") simp
  qed
  have first: "snd (build b) = b
   \<and> fst (build (snd (build b))) = fst (build b)
   \<and> fst (build (set_prompt (snd (build b)) p)) = fst (build (b\<lparr>QueryBuilder.prompt := p\<rparr>))
   \<and> fst (build (set_temperature (snd (build b)) t)) = (fst (build b))\<lparr>Query.temperature := t\<rparr>
   \<and> fst (build (set_max_tokens (snd (build b)) m)) = (fst (build b))\<lparr>Query.max_tokens := m\<rparr>
   \<and> fst (build (add_example (snd (build b)) i out))
       = fst (build (b\<lparr>examples := examples b @ [\<lparr>ex_input = i, ex_output = out\<rparr>]\<rparr>))"
    unfolding same
    by (simp add: build_def set_prompt_def set_temperature_def set_max_tokens_def add_example_def)
  have fields: "Query.temperature (fst (build (set_temperature b t))) = t"
    "Query.max_tokens (fst (build (set_max_tokens b m))) = m"
    by (simp_all add: build_def set_temperature_def set_max_tokens_def Let_def)
  show ?thesis
    unfolding same
    using first [unfolded same] rendered prompted fields added
    by blast
qed

section \<open>Properties of the adapter\<close>

text \<open>
  C2. When the target has a method under the name given to the adapter, \<open>query\<close> of the
  adapter with a text returns exactly what that method, called with the text, returns
  (its value, or the exception it raises).
\<close>

theorem adapter_query_is_direct_call:
  assumes "target name = Some (Method f)"
  shows "ModelAdapter_query (ModelAdapter_init target name) x = f x"
  using assms by (simp add: ModelAdapter_query_def ModelAdapter_init_def getattr_def call_def)

theorem adapter_query_is_direct_call_witness:
  "\<forall>inherited.
     OpenAIModel_object inherited \<lparr>openai_model_name = ''gpt-4o''\<rparr> ''query''
       = Some (Method (OpenAIModel_query \<lparr>openai_model_name = ''gpt-4o''\<rparr>))
     \<and> ModelAdapter_query (openai_model inherited) ''What is Python?''
       = OpenAIModel_query \<lparr>openai_model_name = ''gpt-4o''\<rparr> ''What is Python?''
     \<and> ModelAdapter_query (openai_model inherited) ''What is Python?''
       = Inr (PyStr ''OpenAI response to: What is Python?)'')
     \<and> HuggingFaceModel_object inherited
          \<lparr>model_name = ''Mistral7b'', quantization_method = ''bitsandbytes''\<rparr> ''generate''
       = Some (Method (HuggingFaceModel_generate
                \<lparr>model_name = ''Mistral7b'', quantization_method = ''bitsandbytes''\<rparr>))
     \<and> ModelAdapter_query (huggingface_model inherited) ''What is Python?''
       = Inr (PyStr ''HuggingFace response to: What is Python?)'')"
proof
  fix inherited :: "pyval object"
  let ?o = "\<lparr>openai_model_name = ''gpt-4o''\<rparr>"
  let ?h = "\<lparr>model_name = ''Mistral7b'', quantization_method = ''bitsandbytes''\<rparr>"
  have o: "OpenAIModel_object inherited ?o ''query'' = Some (Method (OpenAIModel_query ?o))"
    by (simp add: OpenAIModel_object_def)
  have h: "HuggingFaceModel_object inherited ?h ''generate''
             = Some (Method (HuggingFaceModel_generate ?h))"
    by (simp add: HuggingFaceModel_object_def)
  have qo: "ModelAdapter_query (openai_model inherited) ''What is Python?''
              = OpenAIModel_query ?o ''What is Python?''"
    unfolding openai_model_def
    using o
      adapter_query_is_direct_call
        [of "OpenAIModel_object inherited ?o" "''query''" "OpenAIModel_query ?o" "''What is Python?''"]
    by simp
  have qh: "ModelAdapter_query (huggingface_model inherited) ''What is Python?''
              = HuggingFaceModel_generate ?h ''What is Python?''"
    unfolding huggingface_model_def
    using h
      adapter_query_is_direct_call
        [of "HuggingFaceModel_object inherited ?h" "''generate''" "HuggingFaceModel_generate ?h"
            "''What is Python?''"]
    by simp
  show "OpenAIModel_object inherited ?o ''query'' = Some (Method (OpenAIModel_query ?o))
     \<and> ModelAdapter_query (openai_model inherited) ''What is Python?''
       = OpenAIModel_query ?o ''What is Python?''
     \<and> ModelAdapter_query (openai_model inherited) ''What is Python?''
       = Inr (PyStr ''OpenAI response to: What is Python?)'')
     \<and> HuggingFaceModel_object inherited ?h ''generate''
       = Some (Method (HuggingFaceModel_generate ?h))
     \<and> ModelAdapter_query (huggingface_model inherited) ''What is Python?''
       = Inr (PyStr ''HuggingFace response to: What is Python?)'')"
    using o h qo qh by (simp add: OpenAIModel_query_def HuggingFaceModel_generate_def)
qed

text \<open>
  An attribute that is there but is not a method: the lookup succeeds and the call
  raises \<open>TypeError\<close>.
\<close>

lemma adapter_not_callable:
  assumes "target name = Some (Data v)"
  shows "ModelAdapter_query (ModelAdapter_init target name) x = Inl TypeError"
  using assms by (simp add: ModelAdapter_query_def ModelAdapter_init_def getattr_def call_def)

lemma adapter_no_attribute:
  assumes "target name = None"
  shows "ModelAdapter_query (ModelAdapter_init target name) x = Inl AttributeError"
  using assms by (simp add: ModelAdapter_query_def ModelAdapter_init_def getattr_def)

text \<open>
  C3. When the target has no method under the name given to the adapter, \<open>query\<close>
  raises, whatever the text, and never returns a value: \<open>AttributeError\<close> when the target
  has no attribute of that name, \<open>TypeError\<close> when the name is an attribute that is not
  a method.
\<close>

theorem adapter_missing_method_raises:
  assumes "\<forall>f. target name \<noteq> Some (Method f)"
  shows "ModelAdapter_query (ModelAdapter_init target name) x
           = Inl (if target name = None then AttributeError else TypeError)
         \<and> (\<forall>r. ModelAdapter_query (ModelAdapter_init target name) x \<noteq> Inr r)"
proof (cases "target name")
  case None
  then show ?thesis
    by (simp add: adapter_no_attribute)
next
  case (Some a)
  with assms obtain v where "a = Data v"
    by (cases a) auto
  with Some have "target name = Some (Data v)"
    by simp
  then show ?thesis
    by (simp add: adapter_not_callable)
qed

theorem adapter_missing_method_raises_witness:
  "\<forall>inherited.
     (\<forall>f. OpenAIModel_object (inherited(''generate'' := None)) \<lparr>openai_model_name = ''gpt-4o''\<rparr>
             ''generate'' \<noteq> Some (Method f))
     \<and> ModelAdapter_query
          (ModelAdapter_init
             (OpenAIModel_object (inherited(''generate'' := None)) \<lparr>openai_model_name = ''gpt-4o''\<rparr>)
             ''generate'')
          ''What is Python?''
        = Inl AttributeError
     \<and> (\<forall>f. OpenAIModel_object inherited \<lparr>openai_model_name = ''gpt-4o''\<rparr>
             ''openai_model_name'' \<noteq> Some (Method f))
     \<and> ModelAdapter_query
          (ModelAdapter_init (OpenAIModel_object inherited \<lparr>openai_model_name = ''gpt-4o''\<rparr>)
             ''openai_model_name'')
          ''What is Python?''
        = Inl TypeError"
proof
  fix inherited :: "pyval object"
  let ?o = "\<lparr>openai_model_name = ''gpt-4o''\<rparr>"
  let ?absent = "OpenAIModel_object (inherited(''generate'' := None)) ?o"
  let ?present = "OpenAIModel_object inherited ?o"
  have a: "?absent ''generate'' = None"
    by (simp add: OpenAIModel_object_def)
  have d: "?present ''openai_model_name'' = Some (Data (PyStr ''gpt-4o''))"
    by (simp add: OpenAIModel_object_def)
  have na: "\<forall>f. ?absent ''generate'' \<noteq> Some (Method f)"
    using a by simp
  have nd: "\<forall>f. ?present ''openai_model_name'' \<noteq> Some (Method f)"
    using d by simp
  have ra: "ModelAdapter_query (ModelAdapter_init ?absent ''generate'') ''What is Python?''
              = Inl AttributeError"
    using adapter_missing_method_raises [of ?absent "''generate''" "''What is Python?''"] na a
    by simp
  have rd: "ModelAdapter_query (ModelAdapter_init ?present ''openai_model_name'') ''What is Python?''
              = Inl TypeError"
    using adapter_missing_method_raises [of ?present "''openai_model_name''" "''What is Python?''"]
      nd d
    by simp
  show "(\<forall>f. ?absent ''generate'' \<noteq> Some (Method f))
     \<and> ModelAdapter_query (ModelAdapter_init ?absent ''generate'') ''What is Python?''
        = Inl AttributeError
     \<and> (\<forall>f. ?present ''openai_model_name'' \<noteq> Some (Method f))
     \<and> ModelAdapter_query (ModelAdapter_init ?present ''openai_model_name'') ''What is Python?''
        = Inl TypeError"
    using na ra nd rd by blast
qed

text \<open>
  \<open>__init__\<close> reached through an adapter: the one of \<open>OpenAIModel\<close> returns \<open>None\<close>, the
  one of \<open>HuggingFaceModel\<close> raises \<open>TypeError\<close>, whatever the instance inherits.
\<close>

lemma adapter_init_method:
  "ModelAdapter_query (ModelAdapter_init (OpenAIModel_object inherited m) ''__init__'') x
     = Inr PyNone
   \<and> ModelAdapter_query (ModelAdapter_init (HuggingFaceModel_object inherited h) ''__init__'') x
     = Inl TypeError"
  by (simp add: ModelAdapter_query_def ModelAdapter_init_def getattr_def call_def
      OpenAIModel_object_def HuggingFaceModel_object_def OpenAIModel_init_def
      HuggingFaceModel_init_def)

section \<open>Properties of the observer\<close>

lemma update_calls:
  "calls (update ob x w) = calls w @ [(ob, x)]"
  by (cases ob) (simp_all add: called_def print_def)

lemma notify_loop_calls:
  "calls (notify_loop obs x w) = calls w @ map (\<lambda>ob. (ob, x)) obs"
proof (induction obs arbitrary: w)
  case Nil
  show ?case by simp
next
  case (Cons ob obs)
  from Cons show ?case by (simp add: update_calls)
qed

text \<open>
  C4. On a fresh notifier, after \<open>add_observer(L1)\<close> and \<open>add_observer(L2)\<close>, \<open>notify(X)\<close>
  is \<open>L1.update(X)\<close> followed by \<open>L2.update(X)\<close>: the call history grows by exactly
  these two calls, in this order, with the same payload. \<open>remove_observer(L1)\<close> then
  returns normally and leaves \<open>L2\<close> alone in the registry, and \<open>notify(Y)\<close> is
  \<open>L2.update(Y)\<close> and nothing else.
\<close>

theorem notify_order_and_removal:
  "observers (add_observer (add_observer LLMOutputNotifier_init L1) L2) = [L1, L2]
   \<and> notify (add_observer (add_observer LLMOutputNotifier_init L1) L2) X w
       = update L2 X (update L1 X w)
   \<and> calls (notify (add_observer (add_observer LLMOutputNotifier_init L1) L2) X w)
       = calls w @ [(L1, X), (L2, X)]
   \<and> fst (remove_observer (add_observer (add_observer LLMOutputNotifier_init L1) L2) L1) = None
   \<and> observers (snd (remove_observer (add_observer (add_observer LLMOutputNotifier_init L1) L2) L1))
       = [L2]
   \<and> notify (snd (remove_observer (add_observer (add_observer LLMOutputNotifier_init L1) L2) L1)) Y w'
       = update L2 Y w'
   \<and> calls (notify (snd (remove_observer (add_observer (add_observer LLMOutputNotifier_init L1) L2) L1)) Y w')
       = calls w' @ [(L2, Y)]"
proof -
  let ?n = "add_observer (add_observer LLMOutputNotifier_init L1) L2"
  have obs: "observers ?n = [L1, L2]"
    by (simp add: add_observer_def LLMOutputNotifier_init_def)
  have rem: "remove_observer ?n L1 = (None, ?n\<lparr>observers := [L2]\<rparr>)"
    by (simp add: remove_observer_def obs)
  show ?thesis
    unfolding rem by (simp add: obs notify_def update_calls)
qed

lemma list_remove_absent:
  "x \<notin> set xs \<Longrightarrow> list_remove xs x = Inl ValueError"
proof (induction xs)
  case Nil
  show ?case by simp
next
  case (Cons y ys)
  from Cons.prems have ne: "y \<noteq> x" and rest: "x \<notin> set ys"
    by auto
  from Cons.IH [OF rest] ne show ?case
    by simp
qed

lemma list_remove_present:
  "x \<in> set xs \<Longrightarrow>
     \<exists>pre post. xs = pre @ x # post \<and> x \<notin> set pre \<and> list_remove xs x = Inr (pre @ post)"
proof (induction xs)
  case Nil
  then show ?case by simp
next
  case (Cons y ys)
  show ?case
  proof (cases "y = x")
    case True
    then have "y # ys = [] @ x # ys \<and> x \<notin> set [] \<and> list_remove (y # ys) x = Inr ([] @ ys)"
      by simp
    then show ?thesis by blast
  next
    case False
    with Cons.prems have "x \<in> set ys" by simp
    then obtain pre post where
      p1: "ys = pre @ x # post" and p2: "x \<notin> set pre" and p3: "list_remove ys x = Inr (pre @ post)"
      using Cons.IH by blast
    have a: "y # ys = (y # pre) @ x # post"
      using p1 by simp
    have b: "x \<notin> set (y # pre)"
      using p2 False by simp
    have c: "list_remove (y # ys) x = Inr ((y # pre) @ post)"
      using False p3 by simp
    show ?thesis
      using a b c by blast
  qed
qed

text \<open>
  C7. \<open>remove_observer\<close> of a registered listener returns normally and deletes its first
  occurrence only: the listeners before it (none of them the listener) and all those
  after it, later occurrences included, stay in their order. Of a listener that is
  not registered it raises \<open>ValueError\<close> and leaves the notifier as it was.
\<close>

theorem remove_observer_first_occurrence:
  "(ob \<in> set (observers n) \<longrightarrow>
      (\<exists>pre post. observers n = pre @ ob # post \<and> ob \<notin> set pre
         \<and> remove_observer n ob = (None, n\<lparr>observers := pre @ post\<rparr>)))
   \<and> (ob \<notin> set (observers n) \<longrightarrow> remove_observer n ob = (Some ValueError, n))"
proof (intro conjI impI)
  assume "ob \<in> set (observers n)"
  from list_remove_present [OF this] obtain pre post where
    p1: "observers n = pre @ ob # post" and p2: "ob \<notin> set pre" and
    p3: "list_remove (observers n) ob = Inr (pre @ post)"
    by blast
  have "remove_observer n ob = (None, n\<lparr>observers := pre @ post\<rparr>)"
    unfolding remove_observer_def p3 by simp
  with p1 p2 show "\<exists>pre post. observers n = pre @ ob # post \<and> ob \<notin> set pre
         \<and> remove_observer n ob = (None, n\<lparr>observers := pre @ post\<rparr>)"
    by blast
next
  assume "ob \<notin> set (observers n)"
  from list_remove_absent [OF this] show "remove_observer n ob = (Some ValueError, n)"
    unfolding remove_observer_def by simp
qed

theorem remove_observer_first_occurrence_witness:
  "Logger 0 \<in> set (observers \<lparr>observers = [Logger 0, UIUpdater 1, Logger 0]\<rparr>)
   \<and> remove_observer \<lparr>observers = [Logger 0, UIUpdater 1, Logger 0]\<rparr> (Logger 0)
       = (None, \<lparr>observers = [UIUpdater 1, Logger 0]\<rparr>)
   \<and> Logger 0 \<notin> set (observers \<lparr>observers = [UIUpdater 1]\<rparr>)
   \<and> remove_observer \<lparr>observers = [UIUpdater 1]\<rparr> (Logger 0)
       = (Some ValueError, \<lparr>observers = [UIUpdater 1]\<rparr>)"
proof -
  let ?twice = "\<lparr>observers = [Logger 0, UIUpdater 1, Logger 0]\<rparr>"
  let ?other = "\<lparr>observers = [UIUpdater 1]\<rparr>"
  have present: "Logger 0 \<in> set (observers ?twice)"
    by simp
  have absent: "Logger 0 \<notin> set (observers ?other)"
    by simp
  from present obtain pre post where
    split: "observers ?twice = pre @ Logger 0 # post" and
    first: "Logger 0 \<notin> set pre" and
    removed: "remove_observer ?twice (Logger 0) = (None, ?twice\<lparr>observers := pre @ post\<rparr>)"
    using remove_observer_first_occurrence [of "Logger 0" ?twice] by blast
  have "pre = []"
  proof (cases pre)
    case Nil
    then show ?thesis .
  next
    case (Cons p ps)
    with split have "p = Logger 0" by simp
    with Cons first show ?thesis by simp
  qed
  with split have "post = [UIUpdater 1, Logger 0]"
    by simp
  with \<open>pre = []\<close> removed have r1:
    "remove_observer ?twice (Logger 0) = (None, \<lparr>observers = [UIUpdater 1, Logger 0]\<rparr>)"
    by simp
  from absent have r2: "remove_observer ?other (Logger 0) = (Some ValueError, ?other)"
    using remove_observer_first_occurrence [of "Logger 0" ?other] by blast
  from present r1 absent r2 show ?thesis
    by blast
qed

section \<open>Properties of the strategy\<close>

text \<open>
  C5. \<open>AdvancedRAG.retrieve\<close> returns, for every query, the list of the one candidate
  that contains \<open>Design Patterns\<close>, the second; the other two candidates do not contain
  it, and the result is the same for any two queries.
\<close>

theorem advanced_retrieve_ignores_query:
  "retrieve AdvancedRAG q = PyList [''Document 2: Advanced Python Design Patterns.'']
   \<and> retrieve AdvancedRAG q = retrieve AdvancedRAG q'
   \<and> str_contains ''Document 2: Advanced Python Design Patterns.'' ''Design Patterns''
   \<and> \<not> str_contains ''Document 1: Basics of Python.'' ''Design Patterns''
   \<and> \<not> str_contains ''Document 3: Strategy Pattern in Depth.'' ''Design Patterns''"
  by (simp add: AdvancedRAG_retrieve_def)

text \<open>Running two sequences of calls one after the other.\<close>

lemma run_append:
  "run self (cs @ ds) = (fst (run self cs) @ fst (run (snd (run self cs)) ds),
                         snd (run (snd (run self cs)) ds))"
proof (induction self cs rule: run.induct)
  case (1 self)
  show ?case by simp
next
  case (2 self s cs)
  then show ?case by simp
next
  case (3 self q cs)
  then show ?case by (simp add: get_response_def split: prod.splits)
qed

lemma run_get_responses:
  "run self (map GetResponse qs) =
     (map (\<lambda>q. ''Generated response based on: '' @ py_str (retrieve (strategy self) q)) qs, self)"
  by (induction qs) (simp_all add: get_response_def)

text \<open>
  C6. A ChatBot holds the one strategy it was constructed with or last given by
  \<open>set_strategy\<close>. After \<open>set_strategy(S)\<close>, for any strategy \<open>S\<close>, \<open>get_response(q)\<close>
  returns \<open>Generated response based on: \<close> followed by the text of what \<open>S\<close> retrieves
  for \<open>q\<close>, and leaves the ChatBot as it is; so in a sequence of calls, the responses
  before the swap are those of the calls before it, unchanged, and every response after
  it, up to the next swap, is made from \<open>S\<close>. For a strategy of another subclass the
  text is that of what its \<open>retrieve\<close> returns for this very \<open>q\<close>; for the three classes
  of the file the responses are the fixed texts given.
\<close>

theorem chatbot_uses_active_strategy:
  "strategy (ChatBot_init S0) = S0
   \<and> strategy (set_strategy self S) = S
   \<and> get_response (set_strategy self S) q
       = (''Generated response based on: '' @ py_str (retrieve S q), set_strategy self S)
   \<and> fst (run self (before @ SetStrategy S # map GetResponse qs))
       = fst (run self before)
         @ map (\<lambda>q. ''Generated response based on: '' @ py_str (retrieve S q)) qs
   \<and> fst (run (ChatBot_init S0) (map GetResponse qs0 @ SetStrategy S # map GetResponse qs))
       = map (\<lambda>q. ''Generated response based on: '' @ py_str (retrieve S0 q)) qs0
         @ map (\<lambda>q. ''Generated response based on: '' @ py_str (retrieve S q)) qs
   \<and> fst (get_response (set_strategy self (OtherRAG f)) q)
       = ''Generated response based on: '' @ py_str (f q)
   \<and> fst (get_response (set_strategy self (OtherRAG (\<lambda>query. PyList [query]))) q)
       = ''Generated response based on: ['' @ py_repr q @ '']''
   \<and> fst (get_response (set_strategy self RAGStrategy) q)
       = ''Generated response based on: None''
   \<and> fst (get_response (set_strategy self NaiveRAG) q)
       = ''Generated response based on: ['Document 1: Basics of Python.', 'Document 2: OOP in Python.']''
   \<and> fst (get_response (set_strategy self AdvancedRAG) q)
       = ''Generated response based on: ['Document 2: Advanced Python Design Patterns.']''"
proof -
  have after: "run (set_strategy c S) (map GetResponse qs)
      = (map (\<lambda>q. ''Generated response based on: '' @ py_str (retrieve S q)) qs, set_strategy c S)"
    for c
    by (simp add: run_get_responses set_strategy_def)
  have swap: "fst (run self (before @ SetStrategy S # map GetResponse qs))
       = fst (run self before)
         @ map (\<lambda>q. ''Generated response based on: '' @ py_str (retrieve S q)) qs"
    for self before
    by (simp add: run_append after)
  have general: "strategy (ChatBot_init S0) = S0
   \<and> strategy (set_strategy self S) = S
   \<and> get_response (set_strategy self S) q
       = (''Generated response based on: '' @ py_str (retrieve S q), set_strategy self S)
   \<and> fst (run self (before @ SetStrategy S # map GetResponse qs))
       = fst (run self before)
         @ map (\<lambda>q. ''Generated response based on: '' @ py_str (retrieve S q)) qs
   \<and> fst (run (ChatBot_init S0) (map GetResponse qs0 @ SetStrategy S # map GetResponse qs))
       = map (\<lambda>q. ''Generated response based on: '' @ py_str (retrieve S0 q)) qs0
         @ map (\<lambda>q. ''Generated response based on: '' @ py_str (retrieve S q)) qs"
    by (simp add: swap run_get_responses)
      (simp add: ChatBot_init_def set_strategy_def get_response_def)
  have resp: "fst (get_response (set_strategy self T) q)
                = ''Generated response based on: '' @ py_str (retrieve T q)" for T
    by (simp add: get_response_def set_strategy_def)
  have other: "fst (get_response (set_strategy self (OtherRAG f)) q)
       = ''Generated response based on: '' @ py_str (f q)"
    by (simp add: resp)
  have echo: "fst (get_response (set_strategy self (OtherRAG (\<lambda>query. PyList [query]))) q)
       = ''Generated response based on: ['' @ py_repr q @ '']''"
    by (simp add: resp)
  have base: "fst (get_response (set_strategy self RAGStrategy) q)
       = ''Generated response based on: None''"
    by (simp add: resp RAGStrategy_retrieve_def)
  have naive: "fst (get_response (set_strategy self NaiveRAG) q)
       = ''Generated response based on: ['Document 1: Basics of Python.', 'Document 2: OOP in Python.']''"
    by (simp add: resp NaiveRAG_retrieve_def py_repr_def repr_char_def is_printable_def Let_def)
  have advanced: "fst (get_response (set_strategy self AdvancedRAG) q)
       = ''Generated response based on: ['Document 2: Advanced Python Design Patterns.']''"
    by (simp add: resp AdvancedRAG_retrieve_def py_repr_def repr_char_def is_printable_def Let_def)
  show ?thesis
    using general other echo base naive advanced by blast
qed

text \<open>The two responses the script prints.\<close>

lemma demo_responses:
  "fst (run (ChatBot_init NaiveRAG)
          [GetResponse ''Explain Python design patterns.'', SetStrategy AdvancedRAG,
           GetResponse ''Explain Python design patterns.''])
   = [''Generated response based on: ['Document 1: Basics of Python.', 'Document 2: OOP in Python.']'',
      ''Generated response based on: ['Document 2: Advanced Python Design Patterns.']'']"
  by (simp add: get_response_def ChatBot_init_def set_strategy_def NaiveRAG_retrieve_def
      AdvancedRAG_retrieve_def py_repr_def repr_char_def is_printable_def Let_def)

end
